theory Spec2Isabelle
  imports Complex_Main "HOL-Library.Sublist"
begin

unbundle bit_operations_syntax

section \<open>Python values and exceptions\<close>

text \<open>
  The program is Python. Its functions raise exceptions; the model returns them as the
  left summand of a result. Only the exceptions that the modelled code can raise appear.
\<close>

datatype error = KeyError | IndexError | TypeError | AttributeError | ApiError

text \<open>
  The catalog answers with decoded JSON, and the client code inspects it with
  \<^verbatim>\<open>isinstance\<close>, \<^verbatim>\<open>.get\<close> and truth tests. A value is therefore modelled as an
  untyped Python value. A dictionary is an association list whose lookup takes the
  first binding of a key. Floating point numbers are not modelled. A character of a
  \<^typ>\<open>string\<close> stands for one code point of a Python \<^verbatim>\<open>str\<close>.
\<close>

datatype pyval =
    PNone
  | PBool bool
  | PInt int
  | PStr string
  | PList "pyval list"
  | PDict "(string \<times> pyval) list"

text \<open>Python's truth test (\<^verbatim>\<open>if v\<close>, \<^verbatim>\<open>not v\<close>, \<^verbatim>\<open>a or b\<close>).\<close>

fun truthy :: "pyval \<Rightarrow> bool" where
  "truthy PNone = False"
| "truthy (PBool b) = b"
| "truthy (PInt i) = (i \<noteq> 0)"
| "truthy (PStr s) = (s \<noteq> [])"
| "truthy (PList xs) = (xs \<noteq> [])"
| "truthy (PDict kvs) = (kvs \<noteq> [])"

fun is_dict :: "pyval \<Rightarrow> bool" where
  "is_dict (PDict kvs) = True"
| "is_dict v = False"

fun is_list :: "pyval \<Rightarrow> bool" where
  "is_list (PList xs) = True"
| "is_list v = False"

fun is_str :: "pyval \<Rightarrow> bool" where
  "is_str (PStr s) = True"
| "is_str v = False"

text \<open>\<^verbatim>\<open>v.get(k, d)\<close>: only a dictionary has the method.\<close>

fun py_get :: "pyval \<Rightarrow> string \<Rightarrow> pyval \<Rightarrow> error + pyval" where
  "py_get (PDict kvs) k d = Inr (case map_of kvs k of None \<Rightarrow> d | Some v \<Rightarrow> v)"
| "py_get v k d = Inl AttributeError"

text \<open>
  The same lookup where the receiver is already known to be a dictionary; on any other
  value it yields the default, and is used only behind an \<^const>\<open>is_dict\<close> test.
\<close>

fun dict_get :: "pyval \<Rightarrow> string \<Rightarrow> pyval \<Rightarrow> pyval" where
  "dict_get (PDict kvs) k d = (case map_of kvs k of None \<Rightarrow> d | Some v \<Rightarrow> v)"
| "dict_get v k d = d"

section \<open>Configuration: the mood table (config.py, main.py)\<close>

definition MOOD_MAPPING :: "(string \<times> string list) list" where
  "MOOD_MAPPING =
    [(''happy'', [''happy'', ''party'', ''upbeat'', ''energetic'', ''dance'']),
     (''sad'', [''sad'', ''melancholy'', ''blues'', ''emotional'', ''heartbreak'']),
     (''angry'', [''rock'', ''metal'', ''aggressive'', ''intense'', ''hardcore'']),
     (''fear'', [''ambient'', ''calm'', ''peaceful'', ''meditation'', ''relaxing'']),
     (''surprise'', [''pop'', ''hits'', ''trending'', ''viral'', ''popular'']),
     (''disgust'', [''alternative'', ''indie'', ''experimental'', ''underground'']),
     (''neutral'', [''chill'', ''lofi'', ''background'', ''study'', ''focus''])]"

text \<open>
  \<^verbatim>\<open>MOOD_MAPPING[k]\<close> raises \<^verbatim>\<open>KeyError\<close> on a missing key;
  \<^verbatim>\<open>MOOD_MAPPING.get(k, d)\<close> yields \<^verbatim>\<open>d\<close> there.
\<close>

definition mapping_subscript :: "(string \<times> 'v) list \<Rightarrow> string \<Rightarrow> error + 'v" where
  "mapping_subscript m k = (case map_of m k of None \<Rightarrow> Inl KeyError | Some v \<Rightarrow> Inr v)"

definition mapping_get :: "(string \<times> 'v) list \<Rightarrow> string \<Rightarrow> 'v \<Rightarrow> 'v" where
  "mapping_get m k d = (case map_of m k of None \<Rightarrow> d | Some v \<Rightarrow> v)"

text \<open>
  \<^verbatim>\<open>return self.config.MOOD_MAPPING.get(detected_mood, self.config.MOOD_MAPPING['neutral'])\<close>:
  the default is evaluated first, whatever the mood.
\<close>

definition get_mood_keywords :: "string \<Rightarrow> error + string list" where
  "get_mood_keywords detected_mood =
    (case mapping_subscript MOOD_MAPPING ''neutral'' of
       Inl e \<Rightarrow> Inl e
     | Inr dflt \<Rightarrow> Inr (mapping_get MOOD_MAPPING detected_mood dflt))"

section \<open>Mood detector (mood_detector.py)\<close>



text \<open>
  The demo rotation. \<^verbatim>\<open>emotions\<close> and \<^verbatim>\<open>emotion_duration\<close> are set once in
  \<^verbatim>\<open>__init__\<close>; the index and the time of the last switch are the mutable state.
  \<^verbatim>\<open>time.time()\<close> is passed in, as a real number of seconds.
\<close>

definition emotions :: "string list" where
  "emotions = [''happy'', ''sad'', ''neutral'', ''angry'', ''surprise'']"

definition emotion_duration :: real where
  "emotion_duration = 10"

record rotation =
  current_emotion_index :: int
  last_emotion_time :: real

definition init_rotation :: "real \<Rightarrow> rotation" where
  "init_rotation now = \<lparr>current_emotion_index = 0, last_emotion_time = now\<rparr>"

text \<open>\<^verbatim>\<open>xs[i]\<close> on a list: a negative index counts from the end, anything else raises.\<close>

definition list_subscript :: "'a list \<Rightarrow> int \<Rightarrow> error + 'a" where
  "list_subscript xs i =
    (if 0 \<le> i \<and> i < int (length xs) then Inr (xs ! nat i)
     else if - int (length xs) \<le> i \<and> i < 0 then Inr (xs ! nat (int (length xs) + i))
     else Inl IndexError)"

definition demo_emotion_rotation :: "real \<Rightarrow> rotation \<Rightarrow> (error + string) \<times> rotation" where
  "demo_emotion_rotation current_time st =
    (let st' =
       (if current_time - last_emotion_time st > emotion_duration
        then st\<lparr>current_emotion_index :=
                  (current_emotion_index st + 1) mod int (length emotions),
                last_emotion_time := current_time\<rparr>
        else st)
     in (list_subscript emotions (current_emotion_index st'), st'))"

text \<open>A label passes \<^verbatim>\<open>if emotion:\<close> when it is neither \<^verbatim>\<open>None\<close> nor the empty string.\<close>

definition truthy_label :: "string option \<Rightarrow> bool" where
  "truthy_label l = (case l of None \<Rightarrow> False | Some s \<Rightarrow> s \<noteq> [])"



section \<open>Stability gate (main.py, detect\_mood\_single\_cycle)\<close>

record gate =
  last_mood :: "string option"
  mood_stability_count :: int

definition required_stability :: int where
  "required_stability = 3"

definition init_gate :: gate where
  "init_gate = \<lparr>last_mood = None, mood_stability_count = 0\<rparr>"

text \<open>The block under \<^verbatim>\<open># Handle mood stability\<close>.\<close>

definition handle_mood_stability :: "gate \<Rightarrow> string option \<Rightarrow> gate" where
  "handle_mood_stability g detected_mood =
    (if truthy_label detected_mood
     then (if detected_mood = last_mood g
           then g\<lparr>mood_stability_count := mood_stability_count g + 1\<rparr>
           else \<lparr>last_mood = detected_mood, mood_stability_count = 1\<rparr>)
     else g)"

text \<open>
  One pass through the loop body is an attempt: what \<^verbatim>\<open>capture_and_detect\<close> reported and
  the value of \<^verbatim>\<open>cv2.waitKey(1)\<close>, or an exception raised somewhere in the body.
\<close>

datatype attempt = Attempt "string option" int | Raised

text \<open>
  The cycle either returns a value after some number of attempts, or is still in its loop
  when the given attempts are used up.
\<close>

datatype cycle = Returned "string option" nat | Running gate

definition quit_key :: "int \<Rightarrow> bool" where
  "quit_key k = (k AND 255 = 113)"

fun stability_loop :: "gate \<Rightarrow> nat \<Rightarrow> attempt list \<Rightarrow> cycle" where
  "stability_loop g n [] =
    (if mood_stability_count g < required_stability then Running g
     else Returned (last_mood g) n)"
| "stability_loop g n (a # as) =
    (if mood_stability_count g < required_stability
     then (case a of
             Raised \<Rightarrow> Returned None (Suc n)
           | Attempt detected_mood k \<Rightarrow>
               (let g' = handle_mood_stability g detected_mood
                in if quit_key k then Returned None (Suc n)
                   else stability_loop g' (Suc n) as))
     else Returned (last_mood g) n)"

definition detect_mood_single_cycle :: "attempt list \<Rightarrow> cycle" where
  "detect_mood_single_cycle as = stability_loop init_gate 0 as"

text \<open>A run in which no key is pressed and nothing raises: only the labels vary.\<close>

definition label_attempts :: "string option list \<Rightarrow> attempt list" where
  "label_attempts ls = map (\<lambda>l. Attempt l (- 1)) ls"

definition gate_after :: "gate \<Rightarrow> string option list \<Rightarrow> gate" where
  "gate_after g ls = foldl handle_mood_stability g ls"

section \<open>Catalog client (spotify\_client.py)\<close>

subsection \<open>Validation and projection of a raw search result\<close>

text \<open>\<^verbatim>\<open>v == 0\<close>: true of the integer zero and of \<^verbatim>\<open>False\<close>, false of every other value.\<close>

fun py_eq_zero :: "pyval \<Rightarrow> bool" where
  "py_eq_zero (PInt i) = (i = 0)"
| "py_eq_zero (PBool b) = (\<not> b)"
| "py_eq_zero v = False"

definition required_fields :: "string list" where
  "required_fields = [''name'', ''external_urls'', ''tracks'', ''owner'']"

text \<open>
  \<^verbatim>\<open>_is_valid_playlist\<close>. A value that is truthy but no dictionary has no \<^verbatim>\<open>get\<close>, and
  the first lookup raises.
\<close>

definition is_valid_playlist :: "pyval \<Rightarrow> error + bool" where
  "is_valid_playlist playlist =
    (if \<not> truthy playlist then Inr False
     else if \<not> is_dict playlist then Inl AttributeError
     else if list_ex (\<lambda>field. \<not> truthy (dict_get playlist field PNone)) required_fields
       then Inr False
     else
       (let tracks = dict_get playlist ''tracks'' (PDict []) in
        if \<not> is_dict tracks \<or> py_eq_zero (dict_get tracks ''total'' (PInt 0)) then Inr False
        else
          (let external_urls = dict_get playlist ''external_urls'' (PDict []) in
           if \<not> is_dict external_urls \<or> \<not> truthy (dict_get external_urls ''spotify'' PNone)
           then Inr False
           else
             (let owner = dict_get playlist ''owner'' (PDict []) in
              if \<not> is_dict owner then Inr False else Inr True))))"

text \<open>
  \<^verbatim>\<open>description[:200] + '...' if len(description) > 200 else description\<close>. Only strings,
  lists and dictionaries have a length; only a string can be sliced and extended by a
  string.
\<close>

fun shorten :: "pyval \<Rightarrow> error + pyval" where
  "shorten (PStr s) = Inr (if length s > 200 then PStr (take 200 s @ ''...'') else PStr s)"
| "shorten (PList xs) = (if length xs > 200 then Inl TypeError else Inr (PList xs))"
| "shorten (PDict kvs) =
    (if length (remdups (map fst kvs)) > 200 then Inl TypeError else Inr (PDict kvs))"
| "shorten v = Inl TypeError"

text \<open>The body of the \<^verbatim>\<open>try\<close> block of \<^verbatim>\<open>_extract_playlist_info\<close>.\<close>

definition extract_fields :: "pyval \<Rightarrow> error + pyval" where
  "extract_fields playlist =
    (if \<not> is_dict playlist then Inl AttributeError
     else
       (let name = dict_get playlist ''name'' (PStr ''Unknown Playlist'');
            external_urls = dict_get playlist ''external_urls'' (PDict [])
        in if \<not> is_dict external_urls then Inl AttributeError
           else
             (let url = dict_get external_urls ''spotify'' (PStr []);
                  d = dict_get playlist ''description'' PNone;
                  description = (if truthy d then d else PStr ''No description available'');
                  tracks = dict_get playlist ''tracks'' (PDict []);
                  tracks_count =
                    (if is_dict tracks then dict_get tracks ''total'' (PInt 0) else PInt 0);
                  owner = dict_get playlist ''owner'' (PDict []);
                  owner_name =
                    (if is_dict owner
                     then (let display_name = dict_get owner ''display_name'' PNone
                           in if truthy display_name then display_name
                              else dict_get owner ''id'' (PStr ''Unknown User''))
                     else PStr ''Unknown User'');
                  images = dict_get playlist ''images'' (PList []);
                  image_url =
                    (case images of
                       PList (first_image # others) \<Rightarrow>
                         (if is_dict first_image then dict_get first_image ''url'' (PStr [])
                          else PStr [])
                     | _ \<Rightarrow> PStr [])
              in case shorten description of
                   Inl e \<Rightarrow> Inl e
                 | Inr short \<Rightarrow>
                     Inr (PDict [(''name'', name), (''url'', url), (''description'', short),
                                 (''tracks_count'', tracks_count), (''owner'', owner_name),
                                 (''image'', image_url)]))))"

text \<open>\<^verbatim>\<open>_extract_playlist_info\<close>: any exception is logged and \<^verbatim>\<open>None\<close> is returned.\<close>

definition extract_playlist_info :: "pyval \<Rightarrow> pyval option" where
  "extract_playlist_info playlist =
    (case extract_fields playlist of Inl e \<Rightarrow> None | Inr playlist_info \<Rightarrow> Some playlist_info)"

subsection \<open>De-duplication\<close>

text \<open>
  Membership in a Python set goes through the hash and \<^verbatim>\<open>==\<close>: \<^verbatim>\<open>True\<close> and \<^verbatim>\<open>1\<close> are the
  same element, a list or a dictionary cannot be hashed.
\<close>

datatype hkey = HNone | HInt int | HStr string

fun py_hash :: "pyval \<Rightarrow> error + hkey" where
  "py_hash PNone = Inr HNone"
| "py_hash (PBool b) = Inr (HInt (if b then 1 else 0))"
| "py_hash (PInt i) = Inr (HInt i)"
| "py_hash (PStr s) = Inr (HStr s)"
| "py_hash (PList xs) = Inl TypeError"
| "py_hash (PDict kvs) = Inl TypeError"

text \<open>
  The loop of \<^verbatim>\<open>_remove_duplicates\<close>, with \<^verbatim>\<open>unique_playlists\<close> and \<^verbatim>\<open>seen_urls\<close> as
  accumulators. \<^verbatim>\<open>url and url not in seen_urls\<close> does not hash a falsy \<^verbatim>\<open>url\<close>.
\<close>

fun remove_duplicates_loop ::
    "pyval list \<Rightarrow> pyval list \<Rightarrow> hkey set \<Rightarrow> error + pyval list" where
  "remove_duplicates_loop [] unique_playlists seen_urls = Inr unique_playlists"
| "remove_duplicates_loop (playlist # rest) unique_playlists seen_urls =
    (if \<not> truthy playlist \<or> \<not> is_dict playlist
     then remove_duplicates_loop rest unique_playlists seen_urls
     else
       (let url = dict_get playlist ''url'' (PStr []) in
        if \<not> truthy url then remove_duplicates_loop rest unique_playlists seen_urls
        else
          (case py_hash url of
             Inl e \<Rightarrow> Inl e
           | Inr k \<Rightarrow>
               (if k \<notin> seen_urls
                then remove_duplicates_loop rest (unique_playlists @ [playlist])
                       (insert k seen_urls)
                else remove_duplicates_loop rest unique_playlists seen_urls))))"

definition remove_duplicates :: "pyval list \<Rightarrow> error + pyval list" where
  "remove_duplicates playlists = remove_duplicates_loop playlists [] {}"

subsection \<open>Search\<close>

text \<open>
  The catalog is outside the program. A call is the query and the limit sent; the
  catalog's answer to a call may depend on all calls made before it, and is a decoded
  JSON value or an exception. \<^verbatim>\<open>self.sp\<close> is \<^verbatim>\<open>None\<close> until \<^verbatim>\<open>authenticate\<close> succeeds.
\<close>

type_synonym call = "string \<times> int"

type_synonym catalog = "call list \<Rightarrow> error + pyval"

text \<open>The inner loop over the items of one answer; an exception ends it.\<close>

fun collect_playlists :: "pyval list \<Rightarrow> pyval list \<Rightarrow> pyval list" where
  "collect_playlists [] all_playlists = all_playlists"
| "collect_playlists (playlist # rest) all_playlists =
    (case is_valid_playlist playlist of
       Inl e \<Rightarrow> all_playlists
     | Inr valid \<Rightarrow>
         (if \<not> valid then collect_playlists rest all_playlists
          else
            (case extract_playlist_info playlist of
               None \<Rightarrow> collect_playlists rest all_playlists
             | Some playlist_info \<Rightarrow>
                 (if truthy playlist_info \<and> truthy (dict_get playlist_info ''url'' PNone)
                  then collect_playlists rest (all_playlists @ [playlist_info])
                  else collect_playlists rest all_playlists))))"

text \<open>The inner \<^verbatim>\<open>try\<close> block for one keyword, from the catalog's answer on.\<close>

definition keyword_results :: "error + pyval \<Rightarrow> pyval list \<Rightarrow> pyval list" where
  "keyword_results answer all_playlists =
    (case answer of
       Inl e \<Rightarrow> all_playlists
     | Inr results \<Rightarrow>
         (if \<not> truthy results \<or> \<not> is_dict results then all_playlists
          else
            (let playlists_data = dict_get results ''playlists'' (PDict []) in
             if \<not> is_dict playlists_data then all_playlists
             else
               (case dict_get playlists_data ''items'' (PList []) of
                  PList playlists \<Rightarrow> collect_playlists playlists all_playlists
                | _ \<Rightarrow> all_playlists))))"

definition quoted :: "string \<Rightarrow> string" where
  "quoted keyword = CHR 0x22 # keyword @ [CHR 0x22]"

text \<open>The loop over the keywords: a keyword that is empty or no string is skipped.\<close>

fun search_keywords ::
    "catalog \<Rightarrow> int \<Rightarrow> pyval list \<Rightarrow> call list \<Rightarrow> pyval list \<Rightarrow> pyval list \<times> call list" where
  "search_keywords sp limit [] calls all_playlists = (all_playlists, calls)"
| "search_keywords sp limit (keyword # rest) calls all_playlists =
    (case keyword of
       PStr k \<Rightarrow>
         (if k = [] then search_keywords sp limit rest calls all_playlists
          else
            (let calls' = calls @ [(quoted k, min limit 50)]
             in search_keywords sp limit rest calls'
                  (keyword_results (sp calls') all_playlists)))
     | _ \<Rightarrow> search_keywords sp limit rest calls all_playlists)"

text \<open>
  \<^verbatim>\<open>search_mood_playlists\<close>, threading the calls made so far. The outer \<^verbatim>\<open>try\<close> block turns
  an exception of \<^verbatim>\<open>_remove_duplicates\<close> into the empty list.
\<close>

definition search_mood_playlists ::
    "catalog option \<Rightarrow> pyval \<Rightarrow> int \<Rightarrow> call list \<Rightarrow> pyval list \<times> call list" where
  "search_mood_playlists sp mood_keywords limit calls =
    (case sp of
       None \<Rightarrow> ([], calls)
     | Some api \<Rightarrow>
         (case mood_keywords of
            PList keywords \<Rightarrow>
              (if keywords = [] then ([], calls)
               else
                 (case search_keywords api limit keywords calls [] of
                    (all_playlists, calls') \<Rightarrow>
                      (case remove_duplicates all_playlists of
                         Inl e \<Rightarrow> ([], calls')
                       | Inr unique_playlists \<Rightarrow> (unique_playlists, calls'))))
          | _ \<Rightarrow> ([], calls)))"

subsection \<open>Recommendation\<close>

text \<open>\<^verbatim>\<open>v >= 10\<close>: defined on numbers (\<^verbatim>\<open>True\<close> is 1), a \<^verbatim>\<open>TypeError\<close> elsewhere.\<close>

fun py_ge_10 :: "pyval \<Rightarrow> error + bool" where
  "py_ge_10 (PInt i) = Inr (i \<ge> 10)"
| "py_ge_10 (PBool b) = Inr False"
| "py_ge_10 v = Inl TypeError"

text \<open>\<^verbatim>\<open>[p for p in playlists if p.get('tracks_count', 0) >= 10]\<close>\<close>

fun quality_filter :: "pyval list \<Rightarrow> error + pyval list" where
  "quality_filter [] = Inr []"
| "quality_filter (p # ps) =
    (case py_get p ''tracks_count'' (PInt 0) of
       Inl e \<Rightarrow> Inl e
     | Inr c \<Rightarrow>
         (case py_ge_10 c of
            Inl e \<Rightarrow> Inl e
          | Inr keep \<Rightarrow>
              (case quality_filter ps of
                 Inl e \<Rightarrow> Inl e
               | Inr qs \<Rightarrow> Inr (if keep then p # qs else qs))))"

text \<open>The list handed to \<^verbatim>\<open>random.choice\<close>: the filtered list, or all of them when it is empty.\<close>

definition quality_playlists :: "pyval list \<Rightarrow> error + pyval list" where
  "quality_playlists playlists =
    (case quality_filter playlists of
       Inl e \<Rightarrow> Inl e
     | Inr qs \<Rightarrow> Inr (if qs = [] then playlists else qs))"

text \<open>
  \<^verbatim>\<open>random.choice\<close>: the random draw is a parameter, reduced to an index of the list; the
  empty list raises.
\<close>

definition random_choice :: "nat \<Rightarrow> 'a list \<Rightarrow> error + 'a" where
  "random_choice r xs = (if xs = [] then Inl IndexError else Inr (xs ! (r mod length xs)))"

definition broader_keywords :: pyval where
  "broader_keywords = PList [PStr ''music'', PStr ''playlist'', PStr ''songs'']"

text \<open>
  The end of \<^verbatim>\<open>get_mood_playlist_recommendation\<close>, from the second \<^verbatim>\<open>if not playlists\<close> on:
  the choice among the playlists found. An exception is caught by the enclosing \<^verbatim>\<open>try\<close>
  block and \<^verbatim>\<open>None\<close> is returned.
\<close>

definition select_playlist :: "nat \<Rightarrow> pyval list \<Rightarrow> pyval option" where
  "select_playlist r playlists =
    (if playlists = [] then None
     else
       (case quality_playlists playlists of
          Inl e \<Rightarrow> None
        | Inr quality \<Rightarrow>
            (case random_choice r quality of
               Inl e \<Rightarrow> None
             | Inr recommended_playlist \<Rightarrow> Some recommended_playlist)))"

definition get_mood_playlist_recommendation ::
    "catalog option \<Rightarrow> nat \<Rightarrow> pyval \<Rightarrow> call list \<Rightarrow> pyval option \<times> call list" where
  "get_mood_playlist_recommendation sp r mood_keywords calls =
    (if \<not> truthy mood_keywords then (None, calls)
     else
       (case search_mood_playlists sp mood_keywords 20 calls of
          (first_playlists, calls1) \<Rightarrow>
            (case (if first_playlists = []
                   then search_mood_playlists sp broader_keywords 10 calls1
                   else (first_playlists, calls1)) of
               (playlists, calls2) \<Rightarrow> (select_playlist r playlists, calls2))))"

subsection \<open>Opening the playlist\<close>

text \<open>
  \<^verbatim>\<open>webbrowser.open\<close> is outside the program: it returns a truth value, which the caller
  does not look at, or raises. The result of \<^verbatim>\<open>open_playlist_in_browser\<close> is paired with
  the URLs that were handed to \<^verbatim>\<open>webbrowser.open\<close>.
\<close>

datatype browser = Launched bool | BrowserError

definition url_prefix :: string where
  "url_prefix = ''https://open.spotify.com/''"

definition open_playlist_in_browser ::
    "(string \<Rightarrow> browser) \<Rightarrow> pyval \<Rightarrow> bool \<times> string list" where
  "open_playlist_in_browser webbrowser_open playlist_url =
    (case playlist_url of
       PStr url \<Rightarrow>
         (if url = [] then (False, [])
          else if \<not> prefix url_prefix url then (False, [])
          else
            (case webbrowser_open url of
               Launched b \<Rightarrow> (True, [url])
             | BrowserError \<Rightarrow> (False, [url])))
     | _ \<Rightarrow> (False, []))"

section \<open>Notions used in the statements\<close>

subsection \<open>Validation\<close>

text \<open>
  The acceptance condition in the words of the specification: a non-empty name, a
  non-empty external playlist URL, a track collection with total \<open>> 0\<close>, and an owner
  object. It is compared with \<^const>\<open>is_valid_playlist\<close> below.
\<close>

definition spec_valid_playlist :: "pyval \<Rightarrow> bool" where
  "spec_valid_playlist playlist =
    (is_dict playlist
     \<and> truthy (dict_get playlist ''name'' PNone)
     \<and> (case dict_get playlist ''external_urls'' PNone of
           PDict eu \<Rightarrow> truthy (dict_get (PDict eu) ''spotify'' PNone)
         | _ \<Rightarrow> False)
     \<and> (case dict_get playlist ''tracks'' PNone of
           PDict t \<Rightarrow> (case dict_get (PDict t) ''total'' PNone of PInt n \<Rightarrow> n > 0 | _ \<Rightarrow> False)
         | _ \<Rightarrow> False)
     \<and> is_dict (dict_get playlist ''owner'' PNone))"

text \<open>
  What the code accepts: the total only has to differ from 0, and the owner has to be a
  dictionary with at least one entry.
\<close>

definition accepted :: "pyval \<Rightarrow> bool" where
  "accepted playlist =
    (is_dict playlist
     \<and> truthy (dict_get playlist ''name'' PNone)
     \<and> (case dict_get playlist ''external_urls'' PNone of
           PDict eu \<Rightarrow> truthy (dict_get (PDict eu) ''spotify'' PNone)
         | _ \<Rightarrow> False)
     \<and> (case dict_get playlist ''tracks'' PNone of
           PDict t \<Rightarrow> \<not> py_eq_zero (dict_get (PDict t) ''total'' (PInt 0))
         | _ \<Rightarrow> False)
     \<and> (case dict_get playlist ''owner'' PNone of
           PDict ow \<Rightarrow> ow \<noteq> []
         | _ \<Rightarrow> False))"

text \<open>Raw search results used as examples.\<close>

definition raw_item :: "pyval \<Rightarrow> pyval \<Rightarrow> pyval \<Rightarrow> pyval \<Rightarrow> pyval" where
  "raw_item name url tracks_total owner =
    PDict [(''name'', name),
           (''external_urls'', PDict [(''spotify'', url)]),
           (''tracks'', PDict [(''total'', tracks_total)]),
           (''owner'', owner)]"

definition sample_item :: pyval where
  "sample_item =
    raw_item (PStr ''Mix'') (PStr ''https://open.spotify.com/playlist/a'') (PInt 25)
      (PDict [(''id'', PStr ''u1'')])"

definition renamed_item :: pyval where
  "renamed_item =
    raw_item (PStr ''Other'') (PStr ''https://open.spotify.com/playlist/a'') (PInt 40)
      (PDict [(''id'', PStr ''u2'')])"

definition negative_total :: pyval where
  "negative_total =
    raw_item (PStr ''Mix'') (PStr ''https://open.spotify.com/playlist/a'') (PInt (- 1))
      (PDict [(''id'', PStr ''u1'')])"

definition empty_owner :: pyval where
  "empty_owner =
    raw_item (PStr ''Mix'') (PStr ''https://open.spotify.com/playlist/a'') (PInt 25) (PDict [])"

definition numeric_url_item :: pyval where
  "numeric_url_item = raw_item (PStr ''Mix'') (PInt 7) (PInt 25) (PDict [(''id'', PStr ''u1'')])"

subsection \<open>Candidates and their URLs\<close>

definition url_of :: "pyval \<Rightarrow> pyval" where
  "url_of playlist = dict_get playlist ''url'' (PStr [])"

definition hash_of :: "pyval \<Rightarrow> error + hkey" where
  "hash_of playlist = py_hash (url_of playlist)"




subsection \<open>Quality filter\<close>

definition enough_tracks :: "pyval \<Rightarrow> bool" where
  "enough_tracks p = (py_ge_10 (dict_get p ''tracks_count'' (PInt 0)) = Inr True)"

text \<open>A candidate whose track count is a number.\<close>

definition counted :: "pyval \<Rightarrow> bool" where
  "counted p =
    (is_dict p \<and>
     (case dict_get p ''tracks_count'' (PInt 0) of
        PInt n \<Rightarrow> True | PBool b \<Rightarrow> True | _ \<Rightarrow> False))"

definition with_tracks :: "int \<Rightarrow> pyval" where
  "with_tracks n = PDict [(''name'', PStr ''Mix''), (''tracks_count'', PInt n)]"

text \<open>
  The candidates with at least 10 tracks when there are any, all candidates otherwise.
\<close>

definition choice_pool :: "pyval list \<Rightarrow> pyval list" where
  "choice_pool playlists =
    (if filter enough_tracks playlists = [] then playlists else filter enough_tracks playlists)"

subsection \<open>Example catalogs\<close>

definition answer :: "pyval list \<Rightarrow> error + pyval" where
  "answer items = Inr (PDict [(''playlists'', PDict [(''items'', PList items)])])"

text \<open>A catalog that answers every call with the same result, whose URL is a number.\<close>

definition numeric_url_catalog :: catalog where
  "numeric_url_catalog calls = answer [numeric_url_item]"

text \<open>A catalog that answers every call with the same two results, which share their URL.\<close>

definition repeating_catalog :: catalog where
  "repeating_catalog calls = answer [sample_item, renamed_item]"

text \<open>A catalog that finds something for the query \<^verbatim>\<open>"music"\<close> only, and fails on \<^verbatim>\<open>"songs"\<close>.\<close>

definition music_only_catalog :: catalog where
  "music_only_catalog calls =
    (if fst (last calls) = quoted ''music'' then answer [sample_item]
     else if fst (last calls) = quoted ''songs'' then Inl ApiError
     else answer [])"

subsection \<open>Opening a URL\<close>

text \<open>
  An open that succeeded, in the words of the specification: the browser facility
  returned, and reported that a browser was launched. It is compared with the result of
  \<^const>\<open>open_playlist_in_browser\<close> below.
\<close>

fun opened_successfully :: "browser \<Rightarrow> bool" where
  "opened_successfully (Launched b) = b"
| "opened_successfully BrowserError = False"

text \<open>A browser facility that never raises and never manages to launch a browser.\<close>

definition failing_browser :: "string \<Rightarrow> browser" where
  "failing_browser url = Launched False"

section \<open>Properties of the mood table\<close>

lemma neutral_keywords:
  "mapping_subscript MOOD_MAPPING ''neutral'' =
     Inr [''chill'', ''lofi'', ''background'', ''study'', ''focus'']"
  by (simp add: mapping_subscript_def MOOD_MAPPING_def)

lemma mood_keywords_nonempty:
  "map_of MOOD_MAPPING m = Some ks \<Longrightarrow> ks \<noteq> []"
  by (auto simp: MOOD_MAPPING_def split: if_splits)

text \<open>
  C9. \<^const>\<open>get_mood_keywords\<close> never raises: for a mood that is a key of the table it
  returns the list stored under that key, for every other string it returns the list
  stored under \<^verbatim>\<open>neutral\<close>, and the list it returns is never empty.
\<close>

theorem get_mood_keywords_total:
  "get_mood_keywords m =
     Inr (case map_of MOOD_MAPPING m of
            Some ks \<Rightarrow> ks
          | None \<Rightarrow> [''chill'', ''lofi'', ''background'', ''study'', ''focus''])
   \<and> get_mood_keywords m \<noteq> Inr []"
proof -
  have eq: "get_mood_keywords m =
     Inr (case map_of MOOD_MAPPING m of
            Some ks \<Rightarrow> ks
          | None \<Rightarrow> [''chill'', ''lofi'', ''background'', ''study'', ''focus''])"
    by (simp add: get_mood_keywords_def neutral_keywords mapping_get_def split: option.split)
  moreover have "get_mood_keywords m \<noteq> Inr []"
    unfolding eq using mood_keywords_nonempty [of m]
    by (cases "map_of MOOD_MAPPING m") auto
  ultimately show ?thesis by simp
qed

section \<open>Properties of mood inference\<close>




section \<open>Properties of the demo rotation\<close>

lemma emotions_nth:
  "0 \<le> i \<Longrightarrow> i < 5 \<Longrightarrow> list_subscript emotions i = Inr (emotions ! nat i)"
  by (simp add: list_subscript_def emotions_def)

text \<open>
  C7. From a state whose index points into the five labels (as it does initially and
  after every call): when more than 10 seconds have passed since the last switch, the
  index moves on by one modulo 5 and the time of the last switch becomes the current
  time; otherwise the state is unchanged. Either way the label returned is the one at the
  index of the resulting state, and that index again points into the list.
\<close>

theorem demo_emotion_rotation_step:
  assumes "0 \<le> current_emotion_index st" and "current_emotion_index st < 5"
  shows "(current_time - last_emotion_time st > 10 \<longrightarrow>
            demo_emotion_rotation current_time st =
              (Inr (emotions ! nat ((current_emotion_index st + 1) mod 5)),
               st\<lparr>current_emotion_index := (current_emotion_index st + 1) mod 5,
                  last_emotion_time := current_time\<rparr>))
       \<and> (\<not> current_time - last_emotion_time st > 10 \<longrightarrow>
            demo_emotion_rotation current_time st =
              (Inr (emotions ! nat (current_emotion_index st)), st))
       \<and> fst (demo_emotion_rotation current_time st) =
            Inr (emotions ! nat (current_emotion_index (snd (demo_emotion_rotation current_time st))))
       \<and> 0 \<le> current_emotion_index (snd (demo_emotion_rotation current_time st))
       \<and> current_emotion_index (snd (demo_emotion_rotation current_time st)) < 5"
proof -
  have len: "int (length emotions) = 5" by (simp add: emotions_def)
  have next_ok: "0 \<le> (current_emotion_index st + 1) mod 5"
    "(current_emotion_index st + 1) mod 5 < 5" by simp_all
  show ?thesis
    using assms next_ok
    by (simp add: demo_emotion_rotation_def Let_def len emotion_duration_def emotions_nth)
qed

theorem demo_emotion_rotation_step_witness:
  "demo_emotion_rotation 111 \<lparr>current_emotion_index = 4, last_emotion_time = 100\<rparr> =
     (Inr ''happy'', \<lparr>current_emotion_index = 0, last_emotion_time = 111\<rparr>)
   \<and> demo_emotion_rotation 110 \<lparr>current_emotion_index = 4, last_emotion_time = 100\<rparr> =
     (Inr ''surprise'', \<lparr>current_emotion_index = 4, last_emotion_time = 100\<rparr>)"
  using demo_emotion_rotation_step [of "\<lparr>current_emotion_index = 4, last_emotion_time = 100\<rparr>" 111]
    demo_emotion_rotation_step [of "\<lparr>current_emotion_index = 4, last_emotion_time = 100\<rparr>" 110]
  by (simp add: emotions_def)

text \<open>The index of the initial state points into the list.\<close>

lemma init_rotation_index:
  "0 \<le> current_emotion_index (init_rotation now) \<and> current_emotion_index (init_rotation now) < 5"
  by (simp add: init_rotation_def)

section \<open>Properties of the stability gate\<close>

lemma no_quit: "\<not> quit_key (- 1)"
  by (simp add: quit_key_def)

lemma gate_after_snoc: "gate_after g (ls @ [l]) = handle_mood_stability (gate_after g ls) l"
  by (simp add: gate_after_def)

lemma gate_after_Cons: "gate_after g (l # ls) = gate_after (handle_mood_stability g l) ls"
  by (simp add: gate_after_def)

lemma gate_after_Nil: "gate_after g [] = g"
  by (simp add: gate_after_def)

lemma stability_loop_confirms:
  "n \<le> length ls \<Longrightarrow>
   \<forall>k<n. mood_stability_count (gate_after g (take k ls)) < 3 \<Longrightarrow>
   mood_stability_count (gate_after g (take n ls)) \<ge> 3 \<Longrightarrow>
   stability_loop g c (label_attempts ls) = Returned (last_mood (gate_after g (take n ls))) (c + n)"
proof (induction ls arbitrary: g n c)
  case Nil
  then show ?case by (simp add: label_attempts_def gate_after_Nil required_stability_def)
next
  case (Cons l ls)
  show ?case
  proof (cases n)
    case 0
    with Cons.prems show ?thesis
      by (simp add: label_attempts_def gate_after_Nil required_stability_def)
  next
    case (Suc m)
    from Cons.prems(2) Suc have low: "mood_stability_count g < 3"
      by (auto simp: gate_after_Nil dest: spec [of _ 0])
    have below: "\<forall>k<m. mood_stability_count (gate_after (handle_mood_stability g l) (take k ls)) < 3"
    proof (intro allI impI)
      fix k assume "k < m"
      then have "Suc k < n" using Suc by simp
      with Cons.prems(2) have "mood_stability_count (gate_after g (take (Suc k) (l # ls))) < 3"
        by blast
      then show "mood_stability_count (gate_after (handle_mood_stability g l) (take k ls)) < 3"
        by (simp add: gate_after_Cons)
    qed
    have reach: "mood_stability_count (gate_after (handle_mood_stability g l) (take m ls)) \<ge> 3"
      using Cons.prems(3) Suc by (simp add: gate_after_Cons)
    have "m \<le> length ls" using Cons.prems(1) Suc by simp
    from Cons.IH [OF this below reach, of "Suc c"]
    show ?thesis
      using low Suc
      by (simp add: label_attempts_def required_stability_def no_quit gate_after_Cons)
  qed
qed

lemma handle_reaches:
  "mood_stability_count g < 3 \<Longrightarrow> mood_stability_count (handle_mood_stability g l) \<ge> 3 \<Longrightarrow>
   last_mood (handle_mood_stability g l) = l \<and> mood_stability_count (handle_mood_stability g l) = 3"
  by (auto simp: handle_mood_stability_def split: if_splits)

lemma confirming_label:
  assumes "0 < n" "n \<le> length ls"
    and "\<forall>k<n. mood_stability_count (gate_after g (take k ls)) < 3"
    and "mood_stability_count (gate_after g (take n ls)) \<ge> 3"
  shows "last_mood (gate_after g (take n ls)) = ls ! (n - 1)
         \<and> mood_stability_count (gate_after g (take n ls)) = 3"
proof -
  obtain m where n: "n = Suc m" using assms(1) by (cases n) auto
  have m: "m < length ls" using assms(2) n by simp
  have tk: "take (Suc m) ls = take m ls @ [ls ! m]"
    using m by (simp add: take_Suc_conv_app_nth)
  have low: "mood_stability_count (gate_after g (take m ls)) < 3"
    using assms(3) n by simp
  show ?thesis
    using handle_reaches [OF low, of "ls ! m"] assms(4) n
    by (simp add: tk gate_after_snoc)
qed

text \<open>
  C2. An attempt without a label leaves the gate as it is. A label equal to the held one
  adds one to the counter; a different label becomes the held one and the counter is 1.
  Over a run of labels in which no key is pressed: if the counter first reaches 3 after
  the \<open>n\<close>-th label, the cycle returns after exactly \<open>n\<close> attempts, the label it returns is the
  \<open>n\<close>-th one, and the counter is 3 at that moment. The two runs of the specification: the
  first returns \<^verbatim>\<open>sad\<close> after five attempts and is still running after four, the second
  returns \<^verbatim>\<open>happy\<close> after four attempts and is still running after three.
\<close>

theorem stability_gate_rule:
  "handle_mood_stability g None = g
   \<and> (l \<noteq> [] \<and> last_mood g = Some l \<longrightarrow>
        handle_mood_stability g (Some l) = g\<lparr>mood_stability_count := mood_stability_count g + 1\<rparr>)
   \<and> (l \<noteq> [] \<and> last_mood g \<noteq> Some l \<longrightarrow>
        handle_mood_stability g (Some l) = \<lparr>last_mood = Some l, mood_stability_count = 1\<rparr>)
   \<and> (0 < n \<and> n \<le> length ls
        \<and> (\<forall>k<n. mood_stability_count (gate_after g (take k ls)) < 3)
        \<and> mood_stability_count (gate_after g (take n ls)) \<ge> 3 \<longrightarrow>
        stability_loop g c (label_attempts ls) = Returned (ls ! (n - 1)) (c + n)
        \<and> last_mood (gate_after g (take n ls)) = ls ! (n - 1)
        \<and> mood_stability_count (gate_after g (take n ls)) = 3)
   \<and> detect_mood_single_cycle
        (label_attempts [Some ''happy'', Some ''happy'', Some ''sad'', Some ''sad'', Some ''sad''])
        = Returned (Some ''sad'') 5
   \<and> detect_mood_single_cycle
        (label_attempts [Some ''happy'', Some ''happy'', Some ''sad'', Some ''sad''])
        = Running \<lparr>last_mood = Some ''sad'', mood_stability_count = 2\<rparr>
   \<and> detect_mood_single_cycle
        (label_attempts [Some ''happy'', None, Some ''happy'', Some ''happy''])
        = Returned (Some ''happy'') 4
   \<and> detect_mood_single_cycle
        (label_attempts [Some ''happy'', None, Some ''happy''])
        = Running \<lparr>last_mood = Some ''happy'', mood_stability_count = 2\<rparr>"
proof -
  have none: "handle_mood_stability g None = g"
    by (simp add: handle_mood_stability_def truthy_label_def)
  have same: "l \<noteq> [] \<and> last_mood g = Some l \<longrightarrow>
        handle_mood_stability g (Some l) = g\<lparr>mood_stability_count := mood_stability_count g + 1\<rparr>"
    by (simp add: handle_mood_stability_def truthy_label_def)
  have other: "l \<noteq> [] \<and> last_mood g \<noteq> Some l \<longrightarrow>
        handle_mood_stability g (Some l) = \<lparr>last_mood = Some l, mood_stability_count = 1\<rparr>"
    by (auto simp: handle_mood_stability_def truthy_label_def)
  have run: "0 < n \<and> n \<le> length ls
        \<and> (\<forall>k<n. mood_stability_count (gate_after g (take k ls)) < 3)
        \<and> mood_stability_count (gate_after g (take n ls)) \<ge> 3 \<longrightarrow>
        stability_loop g c (label_attempts ls) = Returned (ls ! (n - 1)) (c + n)
        \<and> last_mood (gate_after g (take n ls)) = ls ! (n - 1)
        \<and> mood_stability_count (gate_after g (take n ls)) = 3"
    using stability_loop_confirms [of n ls g c] confirming_label [of n ls g] by auto
  have ex1: "detect_mood_single_cycle
        (label_attempts [Some ''happy'', Some ''happy'', Some ''sad'', Some ''sad'', Some ''sad''])
        = Returned (Some ''sad'') 5"
    by (simp add: detect_mood_single_cycle_def label_attempts_def init_gate_def
        handle_mood_stability_def truthy_label_def required_stability_def no_quit)
  have ex1': "detect_mood_single_cycle
        (label_attempts [Some ''happy'', Some ''happy'', Some ''sad'', Some ''sad''])
        = Running \<lparr>last_mood = Some ''sad'', mood_stability_count = 2\<rparr>"
    by (simp add: detect_mood_single_cycle_def label_attempts_def init_gate_def
        handle_mood_stability_def truthy_label_def required_stability_def no_quit)
  have ex2: "detect_mood_single_cycle
        (label_attempts [Some ''happy'', None, Some ''happy'', Some ''happy''])
        = Returned (Some ''happy'') 4"
    by (simp add: detect_mood_single_cycle_def label_attempts_def init_gate_def
        handle_mood_stability_def truthy_label_def required_stability_def no_quit)
  have ex2': "detect_mood_single_cycle
        (label_attempts [Some ''happy'', None, Some ''happy''])
        = Running \<lparr>last_mood = Some ''happy'', mood_stability_count = 2\<rparr>"
    by (simp add: detect_mood_single_cycle_def label_attempts_def init_gate_def
        handle_mood_stability_def truthy_label_def required_stability_def no_quit)
  from none same other run ex1 ex1' ex2 ex2' show ?thesis by blast
qed

lemma all_less_4: "(\<forall>k<4::nat. P k) = (P 0 \<and> P 1 \<and> P 2 \<and> P 3)"
  by (auto simp: less_Suc_eq numeral_eq_Suc)

theorem stability_gate_rule_witness:
  "handle_mood_stability \<lparr>last_mood = Some ''sad'', mood_stability_count = 1\<rparr> (Some ''sad'')
     = \<lparr>last_mood = Some ''sad'', mood_stability_count = 2\<rparr>
   \<and> handle_mood_stability \<lparr>last_mood = Some ''happy'', mood_stability_count = 2\<rparr> (Some ''sad'')
     = \<lparr>last_mood = Some ''sad'', mood_stability_count = 1\<rparr>
   \<and> stability_loop init_gate 0
       (label_attempts [Some ''neutral'', Some ''neutral'', None, Some ''neutral'', Some ''happy''])
     = Returned (Some ''neutral'') 4"
proof -
  let ?ls = "[Some ''neutral'', Some ''neutral'', None, Some ''neutral'', Some ''happy'']"
  have hyp: "0 < (4::nat) \<and> 4 \<le> length ?ls
        \<and> (\<forall>k<4. mood_stability_count (gate_after init_gate (take k ?ls)) < 3)
        \<and> mood_stability_count (gate_after init_gate (take 4 ?ls)) \<ge> 3"
    by (simp add: all_less_4 gate_after_def init_gate_def handle_mood_stability_def
        truthy_label_def)
  have run: "stability_loop init_gate 0 (label_attempts ?ls) = Returned (?ls ! (4 - 1)) (0 + 4)"
    using hyp stability_gate_rule [of init_gate "''sad''" 4 ?ls 0] by blast
  have same: "handle_mood_stability \<lparr>last_mood = Some ''sad'', mood_stability_count = 1\<rparr>
      (Some ''sad'') = \<lparr>last_mood = Some ''sad'', mood_stability_count = 2\<rparr>"
    using stability_gate_rule
      [of "\<lparr>last_mood = Some ''sad'', mood_stability_count = 1\<rparr>" "''sad''" 0 "[]" 0]
    by simp
  have other: "handle_mood_stability \<lparr>last_mood = Some ''happy'', mood_stability_count = 2\<rparr>
      (Some ''sad'') = \<lparr>last_mood = Some ''sad'', mood_stability_count = 1\<rparr>"
    using stability_gate_rule
      [of "\<lparr>last_mood = Some ''happy'', mood_stability_count = 2\<rparr>" "''sad''" 0 "[]" 0]
    by simp
  from run same other show ?thesis by simp
qed

section \<open>Properties of validation\<close>

text \<open>
  C3, as stated, fails in both directions: a result whose total is \<open>-1\<close> is accepted,
  although its total is not \<open>> 0\<close>; a result whose owner is the empty object is rejected,
  although it has a name, a URL, a positive total and an owner object.
\<close>

theorem is_valid_playlist_counterexample:
  "is_valid_playlist negative_total = Inr True \<and> \<not> spec_valid_playlist negative_total
   \<and> spec_valid_playlist empty_owner \<and> is_valid_playlist empty_owner = Inr False"
  by (simp add: is_valid_playlist_def negative_total_def empty_owner_def raw_item_def
      spec_valid_playlist_def required_fields_def)

text \<open>
  C3, amended. A raw search result is accepted if and only if it is a dictionary with a
  truthy name (for a string: non-empty), an \<^verbatim>\<open>external_urls\<close> dictionary with a truthy
  \<^verbatim>\<open>spotify\<close> entry, a \<^verbatim>\<open>tracks\<close> dictionary whose \<^verbatim>\<open>total\<close> is present and not equal to 0, and
  an owner that is a dictionary with at least one entry. A result that is not accepted
  adds nothing to the candidates: the loop over the items goes on without it, or ends.
\<close>

theorem is_valid_playlist_iff:
  "(is_valid_playlist p = Inr True \<longleftrightarrow> accepted p)
   \<and> (\<not> accepted p \<longrightarrow>
        collect_playlists (p # rest) all_playlists = all_playlists
        \<or> collect_playlists (p # rest) all_playlists = collect_playlists rest all_playlists)"
proof -
  have iff: "is_valid_playlist p = Inr True \<longleftrightarrow> accepted p"
  proof (cases p)
    case (PDict kvs)
    show ?thesis
      unfolding PDict is_valid_playlist_def accepted_def required_fields_def Let_def
      by (auto split: option.splits pyval.splits)
  qed (simp_all add: is_valid_playlist_def accepted_def)
  have "is_valid_playlist p \<noteq> Inr True \<Longrightarrow>
      collect_playlists (p # rest) all_playlists = all_playlists
      \<or> collect_playlists (p # rest) all_playlists = collect_playlists rest all_playlists"
    by (cases "is_valid_playlist p") auto
  with iff show ?thesis by blast
qed

theorem is_valid_playlist_iff_witness:
  "accepted sample_item \<and> is_valid_playlist sample_item = Inr True
   \<and> \<not> accepted empty_owner \<and> collect_playlists [empty_owner] [] = []"
proof -
  have a: "accepted sample_item"
    by (simp add: accepted_def sample_item_def raw_item_def)
  have b: "\<not> accepted empty_owner"
    by (simp add: accepted_def empty_owner_def raw_item_def)
  show ?thesis
    using a b is_valid_playlist_iff [of sample_item "[]" "[]"]
      is_valid_playlist_iff [of empty_owner "[]" "[]"]
    by simp
qed

text \<open>
  Where the owner is not the empty object and the total, if the track collection is an
  object, is absent or a non-negative integer, the code accepts exactly what the
  specification's condition describes.
\<close>

lemma accepted_agrees:
  assumes "dict_get p ''owner'' PNone \<noteq> PDict []"
    and "\<forall>t. dict_get p ''tracks'' PNone = PDict t \<longrightarrow>
           (\<exists>n. dict_get (PDict t) ''total'' (PInt 0) = PInt n \<and> n \<ge> 0)"
  shows "accepted p = spec_valid_playlist p"
proof (cases p)
  case (PDict kvs)
  show ?thesis
    using assms unfolding PDict accepted_def spec_valid_playlist_def
    by (cases "map_of kvs ''tracks''"; cases "map_of kvs ''owner''")
       (auto split: pyval.splits option.splits)
qed (simp_all add: accepted_def spec_valid_playlist_def)

section \<open>Properties of de-duplication\<close>







section \<open>Properties of the search\<close>

lemma loop_sound:
  "remove_duplicates_loop ps unique seen = Inr out \<Longrightarrow>
   \<forall>p\<in>set unique. is_dict p \<and> truthy (url_of p) \<Longrightarrow>
   distinct (map hash_of unique) \<Longrightarrow>
   set (map hash_of unique) = Inr ` seen \<Longrightarrow>
   (\<forall>p\<in>set out. is_dict p \<and> truthy (url_of p)) \<and> distinct (map hash_of out)"
proof (induction ps arbitrary: unique seen)
  case Nil
  then show ?case by simp
next
  case (Cons p ps)
  show ?case
  proof (cases "\<not> truthy p \<or> \<not> is_dict p \<or> \<not> truthy (url_of p)")
    case True
    with Cons.prems(1) have "remove_duplicates_loop ps unique seen = Inr out"
      by (auto simp: url_of_def Let_def split: if_splits)
    from Cons.IH [OF this Cons.prems(2,3,4)] show ?thesis .
  next
    case False
    then have ok: "truthy p" "is_dict p" "truthy (url_of p)" by auto
    with Cons.prems(1) obtain k where k: "py_hash (url_of p) = Inr k"
      by (cases "py_hash (url_of p)") (auto simp: url_of_def Let_def)
    show ?thesis
    proof (cases "k \<in> seen")
      case True
      with Cons.prems(1) ok k have "remove_duplicates_loop ps unique seen = Inr out"
        by (simp add: url_of_def Let_def)
      from Cons.IH [OF this Cons.prems(2,3,4)] show ?thesis .
    next
      case False
      with Cons.prems(1) ok k
      have run: "remove_duplicates_loop ps (unique @ [p]) (insert k seen) = Inr out"
        by (simp add: url_of_def Let_def)
      have a: "\<forall>q\<in>set (unique @ [p]). is_dict q \<and> truthy (url_of q)"
        using Cons.prems(2) ok by simp
      have hk: "hash_of p = Inr k"
        using k by (simp add: hash_of_def)
      have "Inr k \<notin> set (map hash_of unique)"
        using False Cons.prems(4) by auto
      then have b: "distinct (map hash_of (unique @ [p]))"
        using Cons.prems(3) hk by simp
      have c: "set (map hash_of (unique @ [p])) = Inr ` insert k seen"
        using Cons.prems(4) hk by simp
      from Cons.IH [OF run a b c] show ?thesis .
    qed
  qed
qed

lemma distinct_urls: "distinct (map hash_of ps) \<Longrightarrow> distinct (map url_of ps)"
  by (induction ps) (auto simp: hash_of_def)

lemma remove_duplicates_sound:
  "remove_duplicates ps = Inr out \<Longrightarrow>
   (\<forall>p\<in>set out. is_dict p \<and> truthy (url_of p)) \<and> distinct (map url_of out)"
  using loop_sound [of ps "[]" "{}" out] distinct_urls [of out]
  by (simp add: remove_duplicates_def)

lemma search_result_cases:
  "fst (search_mood_playlists sp kws limit calls) = []
   \<or> (\<exists>ps. remove_duplicates ps = Inr (fst (search_mood_playlists sp kws limit calls)))"
  by (auto simp: search_mood_playlists_def split: option.splits pyval.splits prod.splits sum.splits)

text \<open>
  Every candidate that the search hands to \<^const>\<open>remove_duplicates\<close> is a dictionary with a
  truthy URL: the projection of a result is a dictionary, and it is appended only when its
  URL is truthy.
\<close>

lemma dict_get_default:
  "truthy (dict_get p k PNone) \<Longrightarrow> dict_get p k d = dict_get p k PNone"
  by (cases p) (auto split: option.splits)

lemma extract_fields_is_dict:
  "extract_fields p = Inr info \<Longrightarrow> is_dict info"
  unfolding extract_fields_def Let_def
  by (cases "is_dict p"; cases "is_dict (dict_get p ''external_urls'' (PDict []))";
      cases "shorten (if truthy (dict_get p ''description'' PNone)
                      then dict_get p ''description'' PNone
                      else PStr ''No description available'')")
     auto

lemma extract_is_dict:
  "extract_playlist_info p = Some info \<Longrightarrow> is_dict info"
  using extract_fields_is_dict [of p info]
  by (cases "extract_fields p") (simp_all add: extract_playlist_info_def)

lemma collect_step:
  "collect_playlists (item # items) all_playlists = all_playlists
   \<or> collect_playlists (item # items) all_playlists = collect_playlists items all_playlists
   \<or> (\<exists>info. extract_playlist_info item = Some info \<and> truthy (dict_get info ''url'' PNone)
        \<and> collect_playlists (item # items) all_playlists =
            collect_playlists items (all_playlists @ [info]))"
  by (cases "is_valid_playlist item"; cases "extract_playlist_info item") auto

lemma collect_playlists_urls:
  "\<forall>p\<in>set all_playlists. is_dict p \<and> truthy (url_of p) \<Longrightarrow>
   \<forall>p\<in>set (collect_playlists items all_playlists). is_dict p \<and> truthy (url_of p)"
proof (induction items arbitrary: all_playlists)
  case Nil
  then show ?case by simp
next
  case (Cons item items)
  from collect_step [of item items all_playlists]
  consider (stop) "collect_playlists (item # items) all_playlists = all_playlists"
    | (skip) "collect_playlists (item # items) all_playlists =
               collect_playlists items all_playlists"
    | (add) info where "extract_playlist_info item = Some info"
        "truthy (dict_get info ''url'' PNone)"
        "collect_playlists (item # items) all_playlists =
           collect_playlists items (all_playlists @ [info])"
    by blast
  then show ?case
  proof cases
    case stop
    with Cons.prems show ?thesis by (simp only:)
  next
    case skip
    with Cons.IH [OF Cons.prems] show ?thesis by (simp only:)
  next
    case add
    have "is_dict info" using extract_is_dict [OF add(1)] .
    moreover have "truthy (url_of info)"
      using add(2) dict_get_default [of info "''url''" "PStr []"] by (simp add: url_of_def)
    ultimately have "\<forall>p\<in>set (all_playlists @ [info]). is_dict p \<and> truthy (url_of p)"
      using Cons.prems by simp
    from Cons.IH [OF this] add(3) show ?thesis by (simp only:)
  qed
qed


lemma keyword_results_cases:
  "keyword_results a all_playlists = all_playlists
   \<or> (\<exists>items. keyword_results a all_playlists = collect_playlists items all_playlists)"
proof (cases a)
  case (Inl e)
  then show ?thesis by (simp add: keyword_results_def)
next
  case (Inr results)
  show ?thesis
  proof (cases "\<not> truthy results \<or> \<not> is_dict results
      \<or> \<not> is_dict (dict_get results ''playlists'' (PDict []))")
    case True
    then show ?thesis by (auto simp: keyword_results_def Inr Let_def)
  next
    case False
    then show ?thesis
      by (cases "dict_get (dict_get results ''playlists'' (PDict [])) ''items'' (PList [])")
         (simp_all add: keyword_results_def Inr Let_def, blast)
  qed
qed

lemma keyword_results_urls:
  assumes "\<forall>p\<in>set all_playlists. is_dict p \<and> truthy (url_of p)"
  shows "\<forall>p\<in>set (keyword_results a all_playlists). is_dict p \<and> truthy (url_of p)"
proof -
  from keyword_results_cases [of a all_playlists]
  consider "keyword_results a all_playlists = all_playlists"
    | items where "keyword_results a all_playlists = collect_playlists items all_playlists"
    by blast
  then show ?thesis
  proof cases
    case 1
    with assms show ?thesis by (simp only:)
  next
    case 2
    with collect_playlists_urls [OF assms, of items] show ?thesis by (simp only:)
  qed
qed

lemma search_keywords_step:
  "\<exists>calls' all'. search_keywords sp limit (kw # kws) calls all_playlists =
        search_keywords sp limit kws calls' all'
      \<and> (all' = all_playlists \<or> (\<exists>a. all' = keyword_results a all_playlists))"
proof (cases kw)
  case (PStr k)
  show ?thesis
  proof (cases "k = []")
    case True
    then show ?thesis unfolding PStr by (simp, blast)
  next
    case False
    then show ?thesis unfolding PStr by (simp add: Let_def, blast)
  qed
qed (simp, blast)+

lemma search_keywords_urls:
  "\<forall>p\<in>set all_playlists. is_dict p \<and> truthy (url_of p) \<Longrightarrow>
   \<forall>p\<in>set (fst (search_keywords sp limit kws calls all_playlists)).
      is_dict p \<and> truthy (url_of p)"
proof (induction kws arbitrary: calls all_playlists)
  case Nil
  then show ?case by simp
next
  case (Cons kw kws)
  from search_keywords_step [of sp limit kw kws calls all_playlists]
  obtain calls' all' where step: "search_keywords sp limit (kw # kws) calls all_playlists =
        search_keywords sp limit kws calls' all'"
    and all': "all' = all_playlists \<or> (\<exists>a. all' = keyword_results a all_playlists)"
    by blast
  from all' Cons.prems keyword_results_urls
  have "\<forall>p\<in>set all'. is_dict p \<and> truthy (url_of p)" by blast
  from Cons.IH [OF this, of calls'] show ?case by (simp only: step)
qed


lemma searched_candidates_have_urls:
  "\<forall>p\<in>set (fst (search_keywords sp limit kws calls [])). is_dict p \<and> truthy (url_of p)"
  using search_keywords_urls [of "[]" sp limit kws calls] by simp

text \<open>
  C10, as stated, fails on the type of the URL: when the catalog sends a number where the
  URL should be, the result is accepted and its candidate is returned with that number as
  its \<^verbatim>\<open>url\<close>.
\<close>

theorem search_mood_playlists_counterexample:
  "search_mood_playlists (Some numeric_url_catalog) (PList [PStr ''happy'']) 10 [] =
     ([PDict [(''name'', PStr ''Mix''), (''url'', PInt 7),
              (''description'', PStr ''No description available''),
              (''tracks_count'', PInt 25), (''owner'', PStr ''u1''), (''image'', PStr [])]],
      [(quoted ''happy'', 10)])
   \<and> \<not> is_str (PInt 7)"
  by (simp add: search_mood_playlists_def numeric_url_catalog_def numeric_url_item_def
      answer_def raw_item_def keyword_results_def is_valid_playlist_def required_fields_def
      extract_playlist_info_def extract_fields_def remove_duplicates_def Let_def)

text \<open>
  C10, amended. Every list returned by \<^verbatim>\<open>search_mood_playlists\<close> contains only dictionaries
  whose \<^verbatim>\<open>url\<close> is truthy (so, when it is a string, a non-empty one), and these URLs are
  pairwise distinct. When the client is not authenticated, or the keyword argument is
  empty or no list, the result is the empty list, and no call is made. The function
  returns a list in every case.
\<close>

theorem search_mood_playlists_urls:
  "(\<forall>p\<in>set (fst (search_mood_playlists sp kws limit calls)).
       is_dict p \<and> truthy (url_of p) \<and> (\<forall>s. url_of p = PStr s \<longrightarrow> s \<noteq> []))
   \<and> distinct (map url_of (fst (search_mood_playlists sp kws limit calls)))
   \<and> (sp = None \<or> \<not> truthy kws \<or> \<not> is_list kws \<longrightarrow>
        search_mood_playlists sp kws limit calls = ([], calls))"
proof -
  have guard: "sp = None \<or> \<not> truthy kws \<or> \<not> is_list kws \<longrightarrow>
        search_mood_playlists sp kws limit calls = ([], calls)"
    by (cases kws) (auto simp: search_mood_playlists_def split: option.splits)
  have "(\<forall>p\<in>set (fst (search_mood_playlists sp kws limit calls)).
       is_dict p \<and> truthy (url_of p))
   \<and> distinct (map url_of (fst (search_mood_playlists sp kws limit calls)))"
    using search_result_cases [of sp kws limit calls] remove_duplicates_sound
    by (metis distinct.simps(1) empty_iff list.map(1) list.set(1))
  moreover have "\<And>p. truthy (url_of p) \<Longrightarrow> \<forall>s. url_of p = PStr s \<longrightarrow> s \<noteq> []"
    by auto
  ultimately show ?thesis using guard by blast
qed

theorem search_mood_playlists_urls_witness:
  "map url_of
     (fst (search_mood_playlists (Some repeating_catalog) (PList [PStr ''happy'', PStr ''party''])
        10 []))
     = [PStr ''https://open.spotify.com/playlist/a'']
   \<and> snd (search_mood_playlists (Some repeating_catalog) (PList [PStr ''happy'', PStr ''party''])
        10 [])
     = [(quoted ''happy'', 10), (quoted ''party'', 10)]
   \<and> search_mood_playlists None (PList [PStr ''happy'']) 10 [] = ([], [])
   \<and> search_mood_playlists (Some repeating_catalog) (PList []) 10 [] = ([], [])
   \<and> search_mood_playlists (Some repeating_catalog) (PStr ''happy'') 10 [] = ([], [])"
proof -
  have run: "search_mood_playlists (Some repeating_catalog)
      (PList [PStr ''happy'', PStr ''party'']) 10 [] =
     ([PDict [(''name'', PStr ''Mix''), (''url'', PStr ''https://open.spotify.com/playlist/a''),
              (''description'', PStr ''No description available''),
              (''tracks_count'', PInt 25), (''owner'', PStr ''u1''), (''image'', PStr [])]],
      [(quoted ''happy'', 10), (quoted ''party'', 10)])"
    by (simp add: search_mood_playlists_def repeating_catalog_def sample_item_def
        renamed_item_def answer_def raw_item_def keyword_results_def is_valid_playlist_def
        required_fields_def extract_playlist_info_def extract_fields_def remove_duplicates_def
        Let_def)
  show ?thesis
    using search_mood_playlists_urls
        [of "Some repeating_catalog" "PList [PStr ''happy'', PStr ''party'']" 10 "[]"]
      search_mood_playlists_urls [of None "PList [PStr ''happy'']" 10 "[]"]
      search_mood_playlists_urls [of "Some repeating_catalog" "PList []" 10 "[]"]
      search_mood_playlists_urls [of "Some repeating_catalog" "PStr ''happy''" 10 "[]"]
    by (simp add: run url_of_def)
qed

section \<open>Properties of the recommendation\<close>

lemma quality_filter_sound:
  "quality_filter ps = Inr qs \<Longrightarrow> qs = filter enough_tracks ps"
proof (induction ps arbitrary: qs)
  case Nil
  then show ?case by simp
next
  case (Cons p ps)
  then show ?case
    by (cases p) (auto simp: enough_tracks_def split: sum.splits if_splits)
qed

lemma quality_filter_counted:
  "\<forall>p\<in>set ps. counted p \<Longrightarrow> quality_filter ps = Inr (filter enough_tracks ps)"
proof (induction ps)
  case Nil
  then show ?case by simp
next
  case (Cons p ps)
  then show ?case
    by (cases p; cases "dict_get p ''tracks_count'' (PInt 0)")
       (auto simp: enough_tracks_def counted_def)
qed

text \<open>
  C5. Whenever the list of playlists found is not empty and the quality filter yields a
  list for \<^verbatim>\<open>random.choice\<close>, that list is the candidates with at least 10 tracks if there
  are any and all candidates otherwise; it is not empty, and the recommendation is one of
  its elements. The filter yields such a list whenever every track count is a number.
  For the track counts 5, 8 and 3 the choice is among all three.
\<close>

theorem quality_fallback:
  "(playlists \<noteq> [] \<and> quality_playlists playlists = Inr quality \<longrightarrow>
      quality = choice_pool playlists \<and> quality \<noteq> []
      \<and> select_playlist r playlists = Some (quality ! (r mod length quality))
      \<and> quality ! (r mod length quality) \<in> set quality)
   \<and> (playlists \<noteq> [] \<and> (\<forall>p\<in>set playlists. counted p) \<longrightarrow>
      quality_playlists playlists = Inr (choice_pool playlists))
   \<and> quality_playlists [with_tracks 5, with_tracks 8, with_tracks 3]
        = Inr [with_tracks 5, with_tracks 8, with_tracks 3]"
proof -
  have a: "playlists \<noteq> [] \<Longrightarrow> quality_playlists playlists = Inr quality \<Longrightarrow>
      quality = choice_pool playlists \<and> quality \<noteq> []"
    by (auto simp: quality_playlists_def choice_pool_def split: sum.splits if_splits
        dest: quality_filter_sound)
  have b: "select_playlist r playlists = Some (quality ! (r mod length quality))
      \<and> quality ! (r mod length quality) \<in> set quality"
    if h: "playlists \<noteq> []" "quality_playlists playlists = Inr quality"
  proof -
    from a [OF h] have "quality \<noteq> []" by blast
    then show ?thesis using h by (simp add: select_playlist_def random_choice_def)
  qed
  have c: "\<forall>p\<in>set playlists. counted p \<Longrightarrow>
      quality_playlists playlists = Inr (choice_pool playlists)"
    by (simp add: quality_playlists_def choice_pool_def quality_filter_counted)
  have d: "quality_playlists [with_tracks 5, with_tracks 8, with_tracks 3]
        = Inr [with_tracks 5, with_tracks 8, with_tracks 3]"
    by (simp add: quality_playlists_def with_tracks_def)
  from a b c d show ?thesis by blast
qed

theorem quality_fallback_witness:
  "quality_playlists [with_tracks 5, with_tracks 12, with_tracks 30]
     = Inr [with_tracks 12, with_tracks 30]
   \<and> select_playlist 4 [with_tracks 5, with_tracks 12, with_tracks 30] = Some (with_tracks 12)"
proof -
  let ?ps = "[with_tracks 5, with_tracks 12, with_tracks 30]"
  have c: "?ps \<noteq> [] \<and> (\<forall>p\<in>set ?ps. counted p)"
    by (simp add: counted_def with_tracks_def)
  have p: "choice_pool ?ps = [with_tracks 12, with_tracks 30]"
    by (simp add: choice_pool_def enough_tracks_def with_tracks_def)
  have m: "(4::nat) mod Suc (Suc 0) = 0"
    by (simp add: numeral_2_eq_2 [symmetric])
  from c quality_fallback [of ?ps "[with_tracks 12, with_tracks 30]" 4]
  show ?thesis by (simp add: p m)
qed

lemma broader_calls:
  "snd (search_mood_playlists (Some api) broader_keywords 10 calls) =
     calls @ [(quoted ''music'', 10), (quoted ''playlist'', 10), (quoted ''songs'', 10)]"
  by (simp add: search_mood_playlists_def broader_keywords_def Let_def
      split: prod.splits sum.splits)

text \<open>With no keywords the function returns \<^verbatim>\<open>None\<close> before any search.\<close>

lemma no_keywords_no_search:
  "\<not> truthy kws \<Longrightarrow> get_mood_playlist_recommendation sp r kws calls = (None, calls)"
  by (simp add: get_mood_playlist_recommendation_def)

text \<open>A search that finds something is not followed by the generic one.\<close>

lemma found_no_retry:
  "truthy kws \<Longrightarrow> search_mood_playlists sp kws 20 calls = (ps, calls1) \<Longrightarrow> ps \<noteq> [] \<Longrightarrow>
   get_mood_playlist_recommendation sp r kws calls = (select_playlist r ps, calls1)"
  by (simp add: get_mood_playlist_recommendation_def)

text \<open>
  C6. When the search with the mood's keywords is made and finds nothing, the function
  searches once more, with the keywords \<^verbatim>\<open>music\<close>, \<^verbatim>\<open>playlist\<close>, \<^verbatim>\<open>songs\<close> and limit 10, and
  its result is the choice among what that search finds: with an authenticated client
  exactly three further calls are made, one per generic keyword. When the generic search
  finds nothing either, the result is \<^verbatim>\<open>None\<close>; no exception leaves the function.
\<close>

theorem generic_retry:
  assumes "truthy kws" and "search_mood_playlists sp kws 20 calls = ([], calls1)"
  shows "get_mood_playlist_recommendation sp r kws calls =
           (select_playlist r (fst (search_mood_playlists sp broader_keywords 10 calls1)),
            snd (search_mood_playlists sp broader_keywords 10 calls1))
       \<and> (fst (search_mood_playlists sp broader_keywords 10 calls1) = [] \<longrightarrow>
            fst (get_mood_playlist_recommendation sp r kws calls) = None)
       \<and> (\<forall>api. sp = Some api \<longrightarrow>
            snd (get_mood_playlist_recommendation sp r kws calls) =
              calls1 @ [(quoted ''music'', 10), (quoted ''playlist'', 10), (quoted ''songs'', 10)])
       \<and> (sp = None \<longrightarrow> get_mood_playlist_recommendation sp r kws calls = (None, calls))"
proof -
  have main: "get_mood_playlist_recommendation sp r kws calls =
           (select_playlist r (fst (search_mood_playlists sp broader_keywords 10 calls1)),
            snd (search_mood_playlists sp broader_keywords 10 calls1))"
    using assms by (simp add: get_mood_playlist_recommendation_def split: prod.splits)
  have none: "select_playlist r [] = None"
    by (simp add: select_playlist_def)
  have unauth: "sp = None \<Longrightarrow> calls1 = calls"
    using assms(2) by (simp add: search_mood_playlists_def)
  show ?thesis
    using main none unauth broader_calls
    by (auto simp: search_mood_playlists_def)
qed

theorem generic_retry_witness:
  "get_mood_playlist_recommendation (Some music_only_catalog) 0 (PList [PStr ''happy'']) [] =
     (Some (PDict [(''name'', PStr ''Mix''), (''url'', PStr ''https://open.spotify.com/playlist/a''),
                   (''description'', PStr ''No description available''),
                   (''tracks_count'', PInt 25), (''owner'', PStr ''u1''), (''image'', PStr [])]),
      [(quoted ''happy'', 20), (quoted ''music'', 10), (quoted ''playlist'', 10),
       (quoted ''songs'', 10)])
   \<and> get_mood_playlist_recommendation (Some (\<lambda>calls. Inl ApiError)) 0 (PList [PStr ''happy'']) [] =
     (None,
      [(quoted ''happy'', 20), (quoted ''music'', 10), (quoted ''playlist'', 10),
       (quoted ''songs'', 10)])"
proof -
  have k: "truthy (PList [PStr ''happy''])" by simp
  have q: "quoted ''happy'' \<noteq> quoted ''music''" "quoted ''happy'' \<noteq> quoted ''songs''"
    "quoted ''playlist'' \<noteq> quoted ''music''" "quoted ''playlist'' \<noteq> quoted ''songs''"
    "quoted ''songs'' \<noteq> quoted ''music''"
    by (simp_all add: quoted_def)
  have first: "search_mood_playlists (Some music_only_catalog) (PList [PStr ''happy'']) 20 [] =
      ([], [(quoted ''happy'', 20)])"
    by (simp add: search_mood_playlists_def music_only_catalog_def q answer_def
        keyword_results_def remove_duplicates_def)
  have second: "search_mood_playlists (Some music_only_catalog) broader_keywords 10
        [(quoted ''happy'', 20)] =
      ([PDict [(''name'', PStr ''Mix''), (''url'', PStr ''https://open.spotify.com/playlist/a''),
               (''description'', PStr ''No description available''),
               (''tracks_count'', PInt 25), (''owner'', PStr ''u1''), (''image'', PStr [])]],
       [(quoted ''happy'', 20), (quoted ''music'', 10), (quoted ''playlist'', 10),
        (quoted ''songs'', 10)])"
    by (simp add: search_mood_playlists_def broader_keywords_def music_only_catalog_def q
        sample_item_def answer_def raw_item_def keyword_results_def is_valid_playlist_def
        required_fields_def extract_playlist_info_def extract_fields_def remove_duplicates_def
        Let_def)
  have pick: "select_playlist 0
      [PDict [(''name'', PStr ''Mix''), (''url'', PStr ''https://open.spotify.com/playlist/a''),
              (''description'', PStr ''No description available''),
              (''tracks_count'', PInt 25), (''owner'', PStr ''u1''), (''image'', PStr [])]] =
      Some (PDict [(''name'', PStr ''Mix''), (''url'', PStr ''https://open.spotify.com/playlist/a''),
                   (''description'', PStr ''No description available''),
                   (''tracks_count'', PInt 25), (''owner'', PStr ''u1''), (''image'', PStr [])])"
    by (simp add: select_playlist_def quality_playlists_def random_choice_def)
  have one: "get_mood_playlist_recommendation (Some music_only_catalog) 0
      (PList [PStr ''happy'']) [] =
     (Some (PDict [(''name'', PStr ''Mix''), (''url'', PStr ''https://open.spotify.com/playlist/a''),
                   (''description'', PStr ''No description available''),
                   (''tracks_count'', PInt 25), (''owner'', PStr ''u1''), (''image'', PStr [])]),
      [(quoted ''happy'', 20), (quoted ''music'', 10), (quoted ''playlist'', 10),
       (quoted ''songs'', 10)])"
    using generic_retry [OF k first, of 0] by (simp add: second pick)
  have first': "search_mood_playlists (Some (\<lambda>calls. Inl ApiError)) (PList [PStr ''happy'']) 20 []
      = ([], [(quoted ''happy'', 20)])"
    by (simp add: search_mood_playlists_def keyword_results_def remove_duplicates_def)
  have second': "search_mood_playlists (Some (\<lambda>calls. Inl ApiError)) broader_keywords 10
        [(quoted ''happy'', 20)] =
      ([], [(quoted ''happy'', 20), (quoted ''music'', 10), (quoted ''playlist'', 10),
            (quoted ''songs'', 10)])"
    by (simp add: search_mood_playlists_def broader_keywords_def keyword_results_def
        remove_duplicates_def)
  have two: "get_mood_playlist_recommendation (Some (\<lambda>calls. Inl ApiError)) 0
      (PList [PStr ''happy'']) [] =
     (None,
      [(quoted ''happy'', 20), (quoted ''music'', 10), (quoted ''playlist'', 10),
       (quoted ''songs'', 10)])"
    using generic_retry [OF k first', of 0] by (simp add: second' select_playlist_def)
  from one two show ?thesis by simp
qed

section \<open>Properties of opening the playlist\<close>

lemma url_prefix_nonempty: "url_prefix \<noteq> []"
  by (simp add: url_prefix_def)

text \<open>
  C8, as stated, fails where \<^verbatim>\<open>webbrowser.open\<close> returns \<^verbatim>\<open>False\<close>: the open was attempted
  and did not succeed, yet the result is \<^verbatim>\<open>True\<close>, because the value that the call returns
  is discarded.
\<close>

theorem open_playlist_in_browser_counterexample:
  "open_playlist_in_browser failing_browser (PStr ''https://open.spotify.com/playlist/x'')
     = (True, [''https://open.spotify.com/playlist/x''])
   \<and> \<not> opened_successfully (failing_browser ''https://open.spotify.com/playlist/x'')"
  by (simp add: open_playlist_in_browser_def failing_browser_def url_prefix_def)

text \<open>
  C8, amended. \<^verbatim>\<open>webbrowser.open\<close> is called only for a string that starts with
  \<^verbatim>\<open>https://open.spotify.com/\<close>, and then with that string; the result is \<^verbatim>\<open>True\<close> exactly
  when the call was made and returned without raising, whatever truth value it returned.
  For every other input, among them the empty string and values that are no strings, the
  result is \<^verbatim>\<open>False\<close> and no call is made.
\<close>

theorem open_playlist_in_browser_guard:
  "(\<forall>s. u = PStr s \<and> prefix url_prefix s \<longrightarrow>
       open_playlist_in_browser w u = (w s \<noteq> BrowserError, [s]))
   \<and> ((\<forall>s. u = PStr s \<longrightarrow> \<not> prefix url_prefix s) \<longrightarrow>
       open_playlist_in_browser w u = (False, []))"
  by (cases u)
     (auto simp: open_playlist_in_browser_def url_prefix_nonempty split: browser.splits)

theorem open_playlist_in_browser_guard_witness:
  "open_playlist_in_browser (\<lambda>s. Launched False) (PStr ''https://open.spotify.com/playlist/x'')
     = (True, [''https://open.spotify.com/playlist/x''])
   \<and> open_playlist_in_browser (\<lambda>s. BrowserError) (PStr ''https://open.spotify.com/playlist/x'')
     = (False, [''https://open.spotify.com/playlist/x''])
   \<and> open_playlist_in_browser (\<lambda>s. Launched True) (PStr ''http://example.org/x'') = (False, [])
   \<and> open_playlist_in_browser (\<lambda>s. Launched True) (PStr []) = (False, [])
   \<and> open_playlist_in_browser (\<lambda>s. Launched True) (PInt 7) = (False, [])"
proof -
  have p: "prefix url_prefix ''https://open.spotify.com/playlist/x''"
    by (simp add: url_prefix_def)
  have n: "\<not> prefix url_prefix ''http://example.org/x''" "\<not> prefix url_prefix []"
    by (simp_all add: url_prefix_def)
  show ?thesis
    using p n
      open_playlist_in_browser_guard [of "PStr ''https://open.spotify.com/playlist/x''"
        "\<lambda>s. Launched False"]
      open_playlist_in_browser_guard [of "PStr ''https://open.spotify.com/playlist/x''"
        "\<lambda>s. BrowserError"]
      open_playlist_in_browser_guard [of "PStr ''http://example.org/x''" "\<lambda>s. Launched True"]
      open_playlist_in_browser_guard [of "PStr []" "\<lambda>s. Launched True"]
      open_playlist_in_browser_guard [of "PInt 7" "\<lambda>s. Launched True"]
    by simp
qed

end
